theory Spec2Isabelle
  imports Main
begin

section \<open>Data model\<close>

text \<open>
  The health-check operator of consul-k8s: a handler (handler.go) that keeps one TTL
  health check per pod on the Consul agent of the pod's host, and a controller that
  filters pod updates into a work queue and feeds the handler from it.

  Go's \<open>error\<close> is modelled by its message; \<open>nil\<close> is \<open>None\<close>. The string-typed
  enumerations of the Kubernetes API (\<open>PodPhase\<close>, \<open>ConditionStatus\<close>) stay strings, as in Go.
\<close>

type_synonym error = string
type_synonym PodPhase = string
type_synonym ConditionStatus = string

definition PodPending :: PodPhase where "PodPending = ''Pending''"
definition PodRunning :: PodPhase where "PodRunning = ''Running''"

definition ConditionTrue :: ConditionStatus where "ConditionTrue = ''True''"
definition ConditionFalse :: ConditionStatus where "ConditionFalse = ''False''"
definition ConditionUnknown :: ConditionStatus where "ConditionUnknown = ''Unknown''"

definition healthCheckPassing :: string where "healthCheckPassing = ''passing''"
definition healthCheckCritical :: string where "healthCheckCritical = ''critical''"

text \<open>\<open>corev1.PodCondition\<close>, the fields the operator reads.\<close>

record PodCondition =
  Type :: string
  Status :: ConditionStatus
  Reason :: string
  Message :: string

text \<open>
  \<open>corev1.Pod\<close>, flattened: \<open>Name\<close>, \<open>Namespace\<close> and \<open>Annotations\<close> of the object
  metadata, \<open>Phase\<close>, \<open>HostIP\<close> and \<open>Conditions\<close> of \<open>pod.Status\<close>. These are the fields
  that the operator reads; the others are left out.
\<close>

record Pod =
  Name :: string
  Namespace :: string
  Annotations :: "string \<rightharpoonup> string"
  Phase :: PodPhase
  HostIP :: string
  Conditions :: "PodCondition list"

text \<open>Reading a Go map at a missing key gives the zero value, the empty string.\<close>

definition annotation :: "Pod \<Rightarrow> string \<Rightarrow> string" where
  "annotation pod k = (case Annotations pod k of None \<Rightarrow> [] | Some v \<Rightarrow> v)"

subsection \<open>The Consul agent\<close>

record AgentService =
  ID :: string
  Service :: string

record AgentCheck =
  CheckID :: string
  CheckName :: string
  CheckStatus :: string

record AgentServiceCheck =
  asc_TTL :: string
  asc_Status :: string
  asc_Notes :: string
  asc_TLSSkipVerify :: bool
  asc_SuccessBeforePassing :: int
  asc_FailuresBeforeCritical :: int
  asc_DeregisterCriticalServiceAfter :: string

record AgentCheckRegistration =
  reg_Name :: string
  reg_Notes :: string
  reg_ServiceID :: string
  reg_AgentServiceCheck :: AgentServiceCheck
  reg_Namespace :: string

text \<open>
  A bound client, \<open>t.Client\<close>: what the agent behind it answers to each endpoint the
  handler calls. \<open>Services k\<close> is the answer to the poll made when \<open>retries = k\<close>, so the
  service list may change between polls. The maps of the Consul API are association
  lists, read with \<open>map_of\<close>.
\<close>

record Agent =
  Services :: "nat \<Rightarrow> error + AgentService list"
  ChecksWithFilter :: "string \<Rightarrow> error + (string \<times> AgentCheck) list"
  CheckRegister :: "AgentCheckRegistration \<Rightarrow> error option"
  CheckDeregister :: "string \<Rightarrow> error option"
  FailTTL :: "string \<Rightarrow> string \<Rightarrow> error option"
  PassTTL :: "string \<Rightarrow> string \<Rightarrow> error option"

text \<open>The calls a handler operation makes, in order.\<close>

datatype agent_call =
    SetAddress_call string
  | Services_call
  | ChecksWithFilter_call string
  | CheckRegister_call AgentCheckRegistration
  | CheckDeregister_call string
  | FailTTL_call string string
  | PassTTL_call string string

text \<open>
  \<open>HealthCheckHandler\<close>: the configured port, \<open>HFlags\<close> as the result of
  \<open>HFlags.APIClient()\<close> once \<open>SetAddress\<close> has been given an address, and \<open>Clientset\<close> as
  the answer to the pod listing under the handler's label selector.
\<close>

record HealthCheckHandler =
  ConsulPort :: string
  HFlags :: "string \<Rightarrow> error + Agent"
  Clientset :: "error + Pod list"

section \<open>handler.go\<close>

definition getConsulServiceID :: "Pod \<Rightarrow> string" where
  "getConsulServiceID pod =
     Name pod @ ''-'' @ annotation pod ''consul.hashicorp.com/connect-service''"

definition getConsulHealthCheckID :: "Pod \<Rightarrow> string" where
  "getConsulHealthCheckID pod = getConsulServiceID pod @ ''-kubernetes-health-check-ttl''"

definition httpfmt :: "HealthCheckHandler \<Rightarrow> string" where
  "httpfmt t = (if ConsulPort t = ''8501'' then ''https'' else ''http'')"

definition newAddr :: "HealthCheckHandler \<Rightarrow> Pod \<Rightarrow> string" where
  "newAddr t pod = httpfmt t @ ''://'' @ HostIP pod @ '':'' @ ConsulPort t"

text \<open>
  \<open>updateConsulClient\<close> returns the client it bound (\<open>Inl\<close> the error, with \<open>t.Client\<close> left
  nil) and the address it set.
\<close>

definition updateConsulClient ::
  "HealthCheckHandler \<Rightarrow> Pod \<Rightarrow> (error + Agent) \<times> agent_call list" where
  "updateConsulClient t pod = (HFlags t (newAddr t pod), [SetAddress_call (newAddr t pod)])"

text \<open>
  The closure that \<open>registerConsulHealthCheck\<close> hands to \<open>backoff.Retry\<close>. Its state is
  the two captured variables, \<open>retries\<close> and the outer \<open>err\<close>; it returns the new state, its
  own result, and the call it made. Past the budget it writes the outer \<open>err\<close> and returns
  nil; its own \<open>err\<close> (declared by \<open>svc, err := ...\<close>) is a different variable.
\<close>

definition operation ::
  "Agent \<Rightarrow> string \<Rightarrow> nat \<times> error option \<Rightarrow>
     (nat \<times> error option) \<times> error option \<times> agent_call list" where
  "operation client serviceID st =
     (case st of (retries, err) \<Rightarrow>
        if retries > 10
        then ((retries, Some (''did not find serviceID: '' @ serviceID)), None, [])
        else (case Services client retries of
                Inr svc \<Rightarrow>
                  if serviceID \<in> set (map Service svc)
                  then ((Suc retries, err), None, [Services_call])
                  else ((Suc retries, err),
                        Some (''did not find serviceID: '' @ serviceID), [Services_call])
              | Inl e \<Rightarrow> ((Suc retries, err), Some e, [Services_call])))"

text \<open>
  \<open>backoff.Retry\<close> with a constant back-off never gives up by itself: it calls the
  operation again (one second later) until the operation returns nil, and then returns
  nil. The loop ends because the closure returns nil once \<open>retries\<close> has passed 10.
\<close>

function Retry ::
  "Agent \<Rightarrow> string \<Rightarrow> nat \<times> error option \<Rightarrow>
     (nat \<times> error option) \<times> error option \<times> agent_call list" where
  "Retry client serviceID st =
     (case operation client serviceID st of
        (st', None, calls) \<Rightarrow> (st', None, calls)
      | (st', Some e, calls) \<Rightarrow>
          (case Retry client serviceID st' of
             (st'', r, calls') \<Rightarrow> (st'', r, calls @ calls')))"
  by pat_completeness auto
termination
  by (relation "measure (\<lambda>(client, serviceID, st). 11 - fst st)")
     (auto simp: operation_def split: if_splits sum.splits)

declare Retry.simps [simp del]

definition registration :: "string \<Rightarrow> string \<Rightarrow> string \<Rightarrow> string \<Rightarrow> AgentCheckRegistration" where
  "registration consulHealthCheckID serviceID initialStatus reason =
     \<lparr>reg_Name = consulHealthCheckID,
      reg_Notes = ''Kubernetes Health Check '' @ reason,
      reg_ServiceID = serviceID,
      reg_AgentServiceCheck =
        \<lparr>asc_TTL = ''100000h'',
         asc_Status = initialStatus,
         asc_Notes = reason,
         asc_TLSSkipVerify = True,
         asc_SuccessBeforePassing = 1,
         asc_FailuresBeforeCritical = 1,
         asc_DeregisterCriticalServiceAfter = []\<rparr>,
      reg_Namespace = []\<rparr>"

text \<open>
  \<open>registerConsulHealthCheck\<close>, on the bound client. The statement
  \<open>err = backoff.Retry(...)\<close> stores the result of \<open>Retry\<close> in the outer \<open>err\<close> after the
  closure has run, so what the closure wrote there (the second component of the final
  state) is overwritten; the test \<open>err != nil\<close> that follows reads the result of \<open>Retry\<close>.
\<close>

definition registerConsulHealthCheck ::
  "Agent \<Rightarrow> string \<Rightarrow> string \<Rightarrow> string \<Rightarrow> string \<Rightarrow> error option \<times> agent_call list" where
  "registerConsulHealthCheck client consulHealthCheckID serviceID initialStatus reason =
     (case Retry client serviceID (0, None) of
        (st, Some e, calls) \<Rightarrow> (Some e, calls)
      | (st, None, calls) \<Rightarrow>
          (CheckRegister client
             (registration consulHealthCheckID serviceID initialStatus reason),
           calls @ [CheckRegister_call
             (registration consulHealthCheckID serviceID initialStatus reason)]))"

definition deregisterConsulHealthCheck ::
  "Agent \<Rightarrow> string \<Rightarrow> error option \<times> agent_call list" where
  "deregisterConsulHealthCheck client consulHealthCheckID =
     (CheckDeregister client consulHealthCheckID, [CheckDeregister_call consulHealthCheckID])"

definition setConsulHealthCheckStatus ::
  "Agent \<Rightarrow> string \<Rightarrow> string \<Rightarrow> bool \<Rightarrow> error option \<times> agent_call list" where
  "setConsulHealthCheckStatus client healthCheckID reason fail =
     (if fail then (FailTTL client healthCheckID reason, [FailTTL_call healthCheckID reason])
      else (PassTTL client healthCheckID reason, [PassTTL_call healthCheckID reason]))"

text \<open>The first condition of type Ready decides; without one the result is an error.\<close>

definition getReadyStatusAndReason :: "Pod \<Rightarrow> error + (ConditionStatus \<times> string)" where
  "getReadyStatusAndReason pod =
     (case find (\<lambda>y. Type y = ''Ready'') (Conditions pod) of
        Some y \<Rightarrow> Inr (Status y, Reason y)
      | None \<Rightarrow> Inl (''unable to get pod ready status and reason for '' @ Name pod))"

text \<open>
  The body of the loop of \<open>Reconcile\<close> for one pod: the calls it makes before it goes on
  to the next pod. Every error inside it ends in \<open>continue\<close>, so it has no result.
\<close>

definition reconcile_pod :: "HealthCheckHandler \<Rightarrow> Pod \<Rightarrow> agent_call list" where
  "reconcile_pod t pod =
     (if Phase pod \<noteq> PodRunning then []
      else (case updateConsulClient t pod of
          (Inl e, calls) \<Rightarrow> calls
        | (Inr client, calls) \<Rightarrow>
           (let serviceID = getConsulServiceID pod;
                healthCheckID = getConsulHealthCheckID pod;
                filter = ''Name == `'' @ healthCheckID @ ''`'';
                calls = calls @ [ChecksWithFilter_call filter]
            in case ChecksWithFilter client filter of
                 Inl e \<Rightarrow> calls
               | Inr checks \<Rightarrow>
                  if checks = [] then calls
                  else (case getReadyStatusAndReason pod of
                      Inl e \<Rightarrow> calls
                    | Inr (status, reason) \<Rightarrow>
                       (case map_of checks healthCheckID of
                          None \<Rightarrow>
                            calls @ snd (registerConsulHealthCheck client healthCheckID serviceID
                              (if status = ConditionFalse then healthCheckCritical
                               else healthCheckPassing)
                              (if status = ConditionFalse then reason else []))
                        | Some check \<Rightarrow>
                           (let checkStatus = CheckStatus check;
                                fail = \<not> (checkStatus = healthCheckCritical \<and> status = ConditionTrue);
                                reason = (if fail then reason else [])
                            in if (checkStatus = healthCheckPassing \<and> status = ConditionFalse)
                                  \<or> \<not> fail
                               then calls @ snd (setConsulHealthCheckStatus client
                                                   healthCheckID reason fail)
                               else calls))))))"

fun Reconcile_loop :: "HealthCheckHandler \<Rightarrow> Pod list \<Rightarrow> agent_call list" where
  "Reconcile_loop t [] = []"
| "Reconcile_loop t (pod # items) = reconcile_pod t pod @ Reconcile_loop t items"

definition Reconcile :: "HealthCheckHandler \<Rightarrow> error option \<times> agent_call list" where
  "Reconcile t =
     (case Clientset t of
        Inl e \<Rightarrow> (Some e, [])
      | Inr items \<Rightarrow> (None, Reconcile_loop t items))"

definition Init :: "HealthCheckHandler \<Rightarrow> error option \<times> agent_call list" where
  "Init t = Reconcile t"

definition ObjectCreated :: "HealthCheckHandler \<Rightarrow> Pod \<Rightarrow> error option \<times> agent_call list" where
  "ObjectCreated t pod =
     (case updateConsulClient t pod of
        (Inl e, calls) \<Rightarrow> (Some e, calls)
      | (Inr client, calls) \<Rightarrow>
          (case registerConsulHealthCheck client (getConsulHealthCheckID pod)
                  (getConsulServiceID pod) healthCheckPassing [] of
             (err, calls') \<Rightarrow> (err, calls @ calls')))"

definition ObjectDeleted :: "HealthCheckHandler \<Rightarrow> Pod \<Rightarrow> error option \<times> agent_call list" where
  "ObjectDeleted t pod =
     (case updateConsulClient t pod of
        (Inl e, calls) \<Rightarrow> (Some e, calls)
      | (Inr client, calls) \<Rightarrow>
          (None, calls @ snd (deregisterConsulHealthCheck client (getConsulHealthCheckID pod))))"

text \<open>
  The loop of \<open>ObjectUpdated\<close> over the conditions: the first condition of type Ready
  sets the status and ends the loop; \<open>err\<close> is nil when the loop finds none.
\<close>

fun ObjectUpdated_loop ::
  "Agent \<Rightarrow> string \<Rightarrow> PodCondition list \<Rightarrow> error option \<times> agent_call list" where
  "ObjectUpdated_loop client consulHealthCheckID [] = (None, [])"
| "ObjectUpdated_loop client consulHealthCheckID (y # ys) =
     (if Type y = ''Ready'' \<and> Status y \<noteq> ConditionTrue
      then setConsulHealthCheckStatus client consulHealthCheckID (Message y) True
      else if Type y = ''Ready'' \<and> Status y = ConditionTrue
      then setConsulHealthCheckStatus client consulHealthCheckID (Message y) False
      else ObjectUpdated_loop client consulHealthCheckID ys)"

definition ObjectUpdated :: "HealthCheckHandler \<Rightarrow> Pod \<Rightarrow> error option \<times> agent_call list" where
  "ObjectUpdated t pod =
     (case updateConsulClient t pod of
        (Inl e, calls) \<Rightarrow> (Some e, calls)
      | (Inr client, calls) \<Rightarrow>
          (case ObjectUpdated_loop client (getConsulHealthCheckID pod) (Conditions pod) of
             (err, calls') \<Rightarrow> (err, calls @ calls')))"

section \<open>The controller\<close>

text \<open>
  \<open>cache.MetaNamespaceKeyFunc\<close> on a pod: \<open>namespace/name\<close>, or the name alone when the
  namespace is empty. It fails only on an object without metadata, which a pod is not.
\<close>

definition MetaNamespaceKeyFunc :: "Pod \<Rightarrow> error + string" where
  "MetaNamespaceKeyFunc pod =
     (if Namespace pod = [] then Inr (Name pod) else Inr (Namespace pod @ ''/'' @ Name pod))"

text \<open>
  The two loops of \<open>UpdateFunc\<close> that read the readiness of a pod: the status starts as
  \<open>ConditionTrue\<close> and every condition of type Ready overwrites it.
\<close>

definition podStatus :: "Pod \<Rightarrow> ConditionStatus" where
  "podStatus pod =
     foldl (\<lambda>s y. if Type y = ''Ready'' then Status y else s) ConditionTrue (Conditions pod)"

text \<open>
  \<open>UpdateFunc\<close>, the only event handler that does anything: the keys it gives to
  \<open>Queue.Add\<close>. \<open>reflect.DeepEqual\<close> on the two pods is equality of the records.
\<close>

definition UpdateFunc :: "Pod \<Rightarrow> Pod \<Rightarrow> string list" where
  "UpdateFunc oldPod newPod =
     (if oldPod = newPod then []
      else if Phase oldPod = PodPending \<and> Phase newPod = PodRunning
      then (case MetaNamespaceKeyFunc newPod of
              Inr key \<Rightarrow> [''ADD/'' @ key]
            | Inl err \<Rightarrow> [])
      else if Phase newPod = PodRunning
      then (if podStatus oldPod \<noteq> podStatus newPod
            then (case MetaNamespaceKeyFunc newPod of
                    Inr key \<Rightarrow> [''UPDATE/'' @ key]
                  | Inl err \<Rightarrow> [])
            else [])
      else [])"

text \<open>\<open>strings.Split(s, "/")\<close> and \<open>strings.Join(xs, "/")\<close>.\<close>

fun Split :: "string \<Rightarrow> string list" where
  "Split [] = [[]]"
| "Split (c # cs) =
     (if c = CHR ''/'' then [] # Split cs
      else (case Split cs of [] \<Rightarrow> [[c]] | w # ws \<Rightarrow> (c # w) # ws))"

fun Join :: "string list \<Rightarrow> string" where
  "Join [] = []"
| "Join [w] = w"
| "Join (w # ws) = w @ ''/'' @ Join ws"

text \<open>
  What the worker loop does to its collaborators, in order: the calls on the queue, the
  error report of \<open>utilruntime.HandleError\<close>, and the calls on the handler.
\<close>

datatype event =
    Queue_AddRateLimited string
  | Queue_Forget string
  | Queue_Done string
  | HandleError error
  | Handle_ObjectCreated Pod
  | Handle_ObjectUpdated Pod

text \<open>
  The queue as the worker loop sees it: \<open>NumRequeues\<close> is the rate limiter's count of
  failures of a key, which \<open>AddRateLimited\<close> increments and \<open>Forget\<close> clears.
\<close>

record Queue =
  NumRequeues :: "string \<Rightarrow> nat"
  events :: "event list"

definition emit :: "event \<Rightarrow> Queue \<Rightarrow> Queue" where
  "emit e q = q\<lparr>events := events q @ [e]\<rparr>"

definition AddRateLimited :: "string \<Rightarrow> Queue \<Rightarrow> Queue" where
  "AddRateLimited key q =
     emit (Queue_AddRateLimited key) (q\<lparr>NumRequeues := (NumRequeues q)(key := Suc (NumRequeues q key))\<rparr>)"

definition Forget :: "string \<Rightarrow> Queue \<Rightarrow> Queue" where
  "Forget key q = emit (Queue_Forget key) (q\<lparr>NumRequeues := (NumRequeues q)(key := 0)\<rparr>)"

definition Done :: "string \<Rightarrow> Queue \<Rightarrow> Queue" where
  "Done key q = emit (Queue_Done key) q"

text \<open>
  \<open>Controller\<close>: the retry bound, the handler behind the \<open>Handler\<close> interface (the
  result of each call), and the informer's indexer (item and error of \<open>GetByKey\<close>;
  \<open>exists\<close> is that the item is there).
\<close>

record Controller =
  MaxRetries :: int
  ObjectCreated_result :: "Pod \<Rightarrow> error option"
  ObjectUpdated_result :: "Pod \<Rightarrow> error option"
  GetByKey :: "string \<Rightarrow> Pod option \<times> error option"

text \<open>The branch of \<open>processNextItem\<close> taken when \<open>GetByKey\<close> returns an error.\<close>

definition lookup_failed :: "Controller \<Rightarrow> string \<Rightarrow> error \<Rightarrow> Queue \<Rightarrow> Queue" where
  "lookup_failed c key err q =
     (if int (NumRequeues q key) < MaxRetries c then AddRateLimited key q
      else emit (HandleError err) (Forget key q))"

text \<open>The calls on the handler for an item that exists, and the error they leave.\<close>

definition dispatch :: "Controller \<Rightarrow> bool \<Rightarrow> Pod \<Rightarrow> Queue \<Rightarrow> error option \<times> Queue" where
  "dispatch c create item q =
     (if create
      then (case ObjectCreated_result c item of
              None \<Rightarrow> (ObjectUpdated_result c item,
                        emit (Handle_ObjectUpdated item) (emit (Handle_ObjectCreated item) q))
            | Some e \<Rightarrow> (Some e, emit (Handle_ObjectCreated item) q))
      else (ObjectUpdated_result c item, emit (Handle_ObjectUpdated item) q))"

datatype 'a outcome = Panic | Return 'a

text \<open>
  \<open>processNextItem\<close>, given what \<open>Queue.Get\<close> returned. Indexing the split key at 0
  panics in Go on an empty slice, which is the \<open>Panic\<close> outcome here.
\<close>

definition processNextItem ::
  "Controller \<Rightarrow> Queue \<Rightarrow> string \<times> bool \<Rightarrow> (bool \<times> Queue) outcome" where
  "processNextItem c q got =
     (case got of (key, quit) \<Rightarrow>
      if quit then Return (False, q)
      else (case Split key of
          [] \<Rightarrow> Panic
        | action # formattedKey \<Rightarrow>
           (let create = (action = ''ADD'');
                keyRaw = Join formattedKey;
                (item, err) = GetByKey c keyRaw;
                q = (case err of Some e \<Rightarrow> lookup_failed c key e q | None \<Rightarrow> q);
                (err, q) =
                  (case item of
                     None \<Rightarrow> (err, q)
                   | Some pod \<Rightarrow>
                      (case dispatch c create pod q of
                         (err, q) \<Rightarrow>
                           (err,
                            if err = None then Forget key q
                            else if int (NumRequeues q key) < MaxRetries c
                            then AddRateLimited key q
                            else q)));
                q = (if err = None then Done key q else q)
            in Return (True, q))))"

section \<open>Observations and example inputs\<close>

text \<open>The kinds of call that the statements below count.\<close>

fun is_status_call :: "agent_call \<Rightarrow> bool" where
  "is_status_call (FailTTL_call i r) = True"
| "is_status_call (PassTTL_call i r) = True"
| "is_status_call c = False"

fun is_register_call :: "agent_call \<Rightarrow> bool" where
  "is_register_call (CheckRegister_call r) = True"
| "is_register_call c = False"

fun is_mutation :: "agent_call \<Rightarrow> bool" where
  "is_mutation (SetAddress_call a) = False"
| "is_mutation Services_call = False"
| "is_mutation (ChecksWithFilter_call f) = False"
| "is_mutation c = True"

fun is_Handle :: "event \<Rightarrow> bool" where
  "is_Handle (Handle_ObjectCreated p) = True"
| "is_Handle (Handle_ObjectUpdated p) = True"
| "is_Handle e = False"

fun is_HandleError :: "event \<Rightarrow> bool" where
  "is_HandleError (HandleError e) = True"
| "is_HandleError e = False"

text \<open>The poll made when \<open>retries = k\<close> does not show the service.\<close>

definition absent :: "Agent \<Rightarrow> string \<Rightarrow> nat \<Rightarrow> bool" where
  "absent client serviceID k =
     (case Services client k of
        Inr svc \<Rightarrow> serviceID \<notin> set (map Service svc)
      | Inl e \<Rightarrow> True)"

text \<open>The error that the handler calls of \<open>processNextItem\<close> leave for an existing item.\<close>

definition handler_err :: "Controller \<Rightarrow> bool \<Rightarrow> Pod \<Rightarrow> error option" where
  "handler_err c create pod =
     (if create
      then (case ObjectCreated_result c pod of
              None \<Rightarrow> ObjectUpdated_result c pod
            | Some e \<Rightarrow> Some e)
      else ObjectUpdated_result c pod)"

text \<open>
  The three failures of one pod inside a sweep, as conditions on what the handler is
  given: no client can be had for the agent of the pod's host, the agent fails the query
  for the pod's checks, or the list of the pod's conditions holds none of type Ready.
\<close>

definition instance_failure :: "HealthCheckHandler \<Rightarrow> Pod \<Rightarrow> bool" where
  "instance_failure t pod =
     (case HFlags t (newAddr t pod) of
        Inl e \<Rightarrow> True
      | Inr client \<Rightarrow>
          isl (ChecksWithFilter client (''Name == `'' @ getConsulHealthCheckID pod @ ''`''))
          \<or> filter (\<lambda>y. Type y = ''Ready'') (Conditions pod) = [])"

text \<open>
  The readiness boolean in the words of the specification (a boolean, true when the
  pod has no Ready condition): the pod is ready when the status that \<open>UpdateFunc\<close> reads
  is \<open>ConditionTrue\<close>, which is also how \<open>ObjectUpdated\<close> chooses between pass and fail.
\<close>

definition readiness_boolean :: "Pod \<Rightarrow> bool" where
  "readiness_boolean pod = (podStatus pod = ConditionTrue)"

text \<open>
  Example inputs: a running pod \<open>web\<close> of service \<open>api\<close> with the given conditions; an
  agent that knows no service and no check and accepts every call; an agent that holds
  the pod's check as critical; an agent that fails the query for checks; an agent that
  knows the service and holds a check of the expected name under another id; and a
  handler whose host \<open>10.0.0.9\<close> has no reachable agent.
\<close>

definition web :: "PodCondition list \<Rightarrow> Pod" where
  "web conds =
     \<lparr>Name = ''web'', Namespace = ''default'',
      Annotations = [''consul.hashicorp.com/connect-service'' \<mapsto> ''api''],
      Phase = PodRunning, HostIP = ''10.0.0.7'', Conditions = conds\<rparr>"

definition Ready :: "ConditionStatus \<Rightarrow> string \<Rightarrow> PodCondition" where
  "Ready s msg = \<lparr>Type = ''Ready'', Status = s, Reason = ''ContainersNotReady'', Message = msg\<rparr>"

definition empty_agent :: Agent where
  "empty_agent =
     \<lparr>Services = (\<lambda>k. Inr []), ChecksWithFilter = (\<lambda>f. Inr []),
      CheckRegister = (\<lambda>r. None), CheckDeregister = (\<lambda>i. None),
      FailTTL = (\<lambda>i r. None), PassTTL = (\<lambda>i r. None)\<rparr>"

definition critical_agent :: Agent where
  "critical_agent =
     \<lparr>Services = (\<lambda>k. Inr [\<lparr>ID = ''web-api'', Service = ''web-api''\<rparr>]),
      ChecksWithFilter = (\<lambda>f. Inr [(''web-api-kubernetes-health-check-ttl'',
         \<lparr>CheckID = ''web-api-kubernetes-health-check-ttl'',
          CheckName = ''web-api-kubernetes-health-check-ttl'',
          CheckStatus = healthCheckCritical\<rparr>)]),
      CheckRegister = (\<lambda>r. None), CheckDeregister = (\<lambda>i. None),
      FailTTL = (\<lambda>i r. None), PassTTL = (\<lambda>i r. None)\<rparr>"

definition failing_agent :: Agent where
  "failing_agent =
     \<lparr>Services = (\<lambda>k. Inl ''connection refused''),
      ChecksWithFilter = (\<lambda>f. Inl ''connection refused''),
      CheckRegister = (\<lambda>r. Some ''connection refused''),
      CheckDeregister = (\<lambda>i. Some ''connection refused''),
      FailTTL = (\<lambda>i r. Some ''connection refused''),
      PassTTL = (\<lambda>i r. Some ''connection refused'')\<rparr>"

definition stray_agent :: Agent where
  "stray_agent =
     \<lparr>Services = (\<lambda>k. Inr [\<lparr>ID = ''web-api'', Service = ''web-api''\<rparr>]),
      ChecksWithFilter = (\<lambda>f. Inr [(''stray'',
         \<lparr>CheckID = ''stray'',
          CheckName = ''web-api-kubernetes-health-check-ttl'',
          CheckStatus = healthCheckPassing\<rparr>)]),
      CheckRegister = (\<lambda>r. None), CheckDeregister = (\<lambda>i. None),
      FailTTL = (\<lambda>i r. None), PassTTL = (\<lambda>i r. None)\<rparr>"

definition handler_on :: "Agent \<Rightarrow> Pod list \<Rightarrow> HealthCheckHandler" where
  "handler_on agent pods =
     \<lparr>ConsulPort = ''8500'',
      HFlags = (\<lambda>addr. if addr = ''http://10.0.0.9:8500'' then Inl ''no client'' else Inr agent),
      Clientset = Inr pods\<rparr>"

definition controller_on ::
  "int \<Rightarrow> error option \<Rightarrow> (Pod option \<times> error option) \<Rightarrow> Controller" where
  "controller_on n handled found =
     \<lparr>MaxRetries = n,
      ObjectCreated_result = (\<lambda>p. handled),
      ObjectUpdated_result = (\<lambda>p. handled),
      GetByKey = (\<lambda>k. if k = ''default/web'' then found else (None, None))\<rparr>"

definition fresh_queue :: Queue where
  "fresh_queue = \<lparr>NumRequeues = (\<lambda>k. 0), events = []\<rparr>"

section \<open>Properties of the handler\<close>

text \<open>
  C9. The health check id of a pod is its service id followed by
  \<open>-kubernetes-health-check-ttl\<close>; the service id is the pod's name, a dash and the value of
  its connect-service annotation; and the address that \<open>updateConsulClient\<close> sets, and asks
  a client for, is \<open>scheme://hostIP:port\<close> with scheme https when the configured port is
  \<open>8501\<close> and http otherwise.
\<close>

theorem identifiers_and_agent_address:
  "getConsulHealthCheckID pod = getConsulServiceID pod @ ''-kubernetes-health-check-ttl''
   \<and> getConsulServiceID pod =
       Name pod @ ''-'' @
       (case Annotations pod ''consul.hashicorp.com/connect-service'' of
          None \<Rightarrow> [] | Some v \<Rightarrow> v)
   \<and> updateConsulClient t pod =
       (HFlags t (newAddr t pod), [SetAddress_call (newAddr t pod)])
   \<and> newAddr t pod =
       (if ConsulPort t = ''8501'' then ''https'' else ''http'')
         @ ''://'' @ HostIP pod @ '':'' @ ConsulPort t"
  by (simp add: getConsulHealthCheckID_def getConsulServiceID_def annotation_def
      updateConsulClient_def newAddr_def httpfmt_def)

subsection \<open>Registration and the retry loop\<close>

lemma Retry_returns_nil: "fst (snd (Retry client serviceID st)) = None"
  by (induction client serviceID st rule: Retry.induct)
     (subst Retry.simps, auto split: prod.splits option.splits)

lemma Retry_only_polls: "filter is_mutation (snd (snd (Retry client serviceID st))) = []"
  by (induction client serviceID st rule: Retry.induct)
     (subst Retry.simps,
      auto simp: operation_def split: prod.splits option.splits if_splits sum.splits)

lemma Retry_past_budget:
  "10 < r \<Longrightarrow>
   Retry client serviceID (r, e) =
     ((r, Some (''did not find serviceID: '' @ serviceID)), None, [])"
  by (subst Retry.simps) (simp add: operation_def)

lemma Retry_absent_step:
  "r \<le> 10 \<Longrightarrow> absent client serviceID r \<Longrightarrow>
   Retry client serviceID (r, e) =
     (case Retry client serviceID (Suc r, e) of
        (st, res, calls) \<Rightarrow> (st, res, Services_call # calls))"
  by (subst Retry.simps) (auto simp: operation_def absent_def split: sum.splits)

text \<open>
  When no poll within the budget shows the service, the loop ends after eleven polls
  with the closure's error in the captured variable and nil as its own result.
\<close>

lemma Retry_never_found:
  assumes "\<And>k. k \<le> 10 \<Longrightarrow> absent client serviceID k"
  shows "r \<le> 11 \<Longrightarrow>
         Retry client serviceID (r, e) =
           ((11, Some (''did not find serviceID: '' @ serviceID)), None,
            replicate (11 - r) Services_call)"
proof (induction "11 - r" arbitrary: r)
  case 0
  then have "r = 11" by simp
  then show ?case by (simp add: Retry_past_budget)
next
  case (Suc n)
  then have r: "r \<le> 10" and n: "n = 11 - Suc r" "Suc r \<le> 11" by simp_all
  have "11 - r = Suc (11 - Suc r)" using r by simp
  then show ?case
    using Suc.hyps(1)[OF n] assms[OF r] r by (simp add: Retry_absent_step)
qed

text \<open>
  Whatever the agent answers, \<open>registerConsulHealthCheck\<close> goes on to \<open>CheckRegister\<close> and
  returns its result: the error of the closure never reaches the test after \<open>Retry\<close>.
\<close>

lemma registerConsulHealthCheck_always_registers:
  "\<exists>polls. filter is_mutation polls = [] \<and>
     registerConsulHealthCheck client hc serviceID st reason =
       (CheckRegister client (registration hc serviceID st reason),
        polls @ [CheckRegister_call (registration hc serviceID st reason)])"
proof -
  obtain s r polls where R: "Retry client serviceID (0, None) = (s, r, polls)"
    by (cases "Retry client serviceID (0, None)") auto
  have "r = None" using Retry_returns_nil[of client serviceID "(0, None)"] R by simp
  moreover have "filter is_mutation polls = []"
    using Retry_only_polls[of client serviceID "(0, None)"] R by simp
  ultimately show ?thesis using R by (simp add: registerConsulHealthCheck_def)
qed

lemma registerConsulHealthCheck_never_found:
  assumes "\<And>k. k \<le> 10 \<Longrightarrow> absent client serviceID k"
  shows "registerConsulHealthCheck client hc serviceID st reason =
     (CheckRegister client (registration hc serviceID st reason),
      replicate 11 Services_call @ [CheckRegister_call (registration hc serviceID st reason)])"
  using Retry_never_found[OF assms, of 0 None]
  by (simp add: registerConsulHealthCheck_def)

lemma empty_agent_register:
  "registerConsulHealthCheck empty_agent hc serviceID st reason =
     (None, replicate 11 Services_call @ [CheckRegister_call (registration hc serviceID st reason)])"
proof -
  have "absent empty_agent serviceID k" for k by (simp add: absent_def empty_agent_def)
  then show ?thesis
    using registerConsulHealthCheck_never_found[of empty_agent serviceID hc st reason]
    by (simp add: empty_agent_def)
qed

text \<open>
  C1. The claim: a Create whose service never appears in the agent's service list within
  the retry budget returns a "service not found" error and does not register the check.
  The code does otherwise. Here the agent of host \<open>10.0.0.7\<close> never lists the service
  \<open>web-api\<close>: \<open>ObjectCreated\<close> polls eleven times, then registers the check all the same and
  returns nil.
\<close>

theorem ObjectCreated_registers_when_service_never_found:
  "ObjectCreated (handler_on empty_agent []) (web []) =
     (None,
      SetAddress_call ''http://10.0.0.7:8500'' # replicate 11 Services_call @
      [CheckRegister_call
         (registration ''web-api-kubernetes-health-check-ttl'' ''web-api'' ''passing'' [])])"
  by (simp add: ObjectCreated_def updateConsulClient_def newAddr_def httpfmt_def web_def
      handler_on_def getConsulHealthCheckID_def getConsulServiceID_def annotation_def
      healthCheckPassing_def empty_agent_register)

subsection \<open>Update\<close>

lemma ObjectUpdated_loop_first_Ready:
  "ObjectUpdated_loop client hc ys =
     (case find (\<lambda>y. Type y = ''Ready'') ys of
        None \<Rightarrow> (None, [])
      | Some y \<Rightarrow> setConsulHealthCheckStatus client hc (Message y) (Status y \<noteq> ConditionTrue))"
  by (induction ys) auto

text \<open>
  C5, as amended. \<open>ObjectUpdated\<close> issues at most one status-setting call. When a client
  is bound for the pod's host and the pod has a condition of type Ready, it issues exactly
  one, decided by the first such condition: \<open>PassTTL\<close> when its status is \<open>ConditionTrue\<close>,
  and \<open>FailTTL\<close> with the condition's message as the reason otherwise. When no client is
  bound or the pod has no Ready condition it issues none. The equation also records the
  reason that the code gives to \<open>PassTTL\<close>, which is the condition's message as well.
\<close>

theorem ObjectUpdated_status_calls:
  "filter is_status_call (snd (ObjectUpdated t pod)) =
     (case HFlags t (newAddr t pod) of
        Inl e \<Rightarrow> []
      | Inr client \<Rightarrow>
         (case find (\<lambda>y. Type y = ''Ready'') (Conditions pod) of
            None \<Rightarrow> []
          | Some y \<Rightarrow>
              if Status y = ConditionTrue
              then [PassTTL_call (getConsulHealthCheckID pod) (Message y)]
              else [FailTTL_call (getConsulHealthCheckID pod) (Message y)]))
   \<and> length (filter is_status_call (snd (ObjectUpdated t pod))) \<le> 1"
  by (auto simp: ObjectUpdated_def updateConsulClient_def ObjectUpdated_loop_first_Ready
      setConsulHealthCheckStatus_def split: sum.splits option.splits prod.splits)

text \<open>
  The claim C5 as stated fails twice: on a ready pod whose Ready condition carries a
  message the reason of \<open>PassTTL\<close> is that message, not the empty string; and on a pod
  without a Ready condition no status-setting call is issued at all.
\<close>

theorem ObjectUpdated_pass_reason_and_no_call:
  "snd (ObjectUpdated (handler_on empty_agent []) (web [Ready ConditionTrue ''all probes ok''])) =
     [SetAddress_call ''http://10.0.0.7:8500'',
      PassTTL_call ''web-api-kubernetes-health-check-ttl'' ''all probes ok'']
   \<and> ObjectUpdated (handler_on empty_agent []) (web []) =
     (None, [SetAddress_call ''http://10.0.0.7:8500''])"
  by (simp add: ObjectUpdated_def updateConsulClient_def newAddr_def httpfmt_def web_def
      handler_on_def getConsulHealthCheckID_def getConsulServiceID_def annotation_def
      Ready_def ConditionTrue_def setConsulHealthCheckStatus_def empty_agent_def)

subsection \<open>Reconcile\<close>

lemma Reconcile_loop_append:
  "Reconcile_loop t (xs @ ys) = Reconcile_loop t xs @ Reconcile_loop t ys"
  by (induction xs) auto

lemma reconcile_pod_Clientset: "reconcile_pod (t\<lparr>Clientset := l\<rparr>) pod = reconcile_pod t pod"
  by (simp add: reconcile_pod_def updateConsulClient_def newAddr_def httpfmt_def)

lemma Reconcile_loop_Clientset:
  "Reconcile_loop (t\<lparr>Clientset := l\<rparr>) xs = Reconcile_loop t xs"
  by (induction xs) (auto simp: reconcile_pod_Clientset)

lemma no_Ready_condition:
  "filter (\<lambda>y. Type y = ''Ready'') (Conditions pod) = [] \<Longrightarrow>
   getReadyStatusAndReason pod =
     Inl (''unable to get pod ready status and reason for '' @ Name pod)"
proof -
  assume "filter (\<lambda>y. Type y = ''Ready'') (Conditions pod) = []"
  then have "find (\<lambda>y. Type y = ''Ready'') (Conditions pod) = None"
    by (simp add: find_None_iff filter_empty_conv)
  then show ?thesis by (simp add: getReadyStatusAndReason_def)
qed

lemma reconcile_pod_skips_failure:
  "instance_failure t pod \<Longrightarrow> filter is_mutation (reconcile_pod t pod) = []"
  by (auto simp: instance_failure_def reconcile_pod_def updateConsulClient_def Let_def
      no_Ready_condition split: sum.splits)

lemma Retry_found:
  "r \<le> 10 \<Longrightarrow> Services client r = Inr svc \<Longrightarrow> serviceID \<in> set (map Service svc) \<Longrightarrow>
   Retry client serviceID (r, e) = ((Suc r, e), None, [Services_call])"
  by (subst Retry.simps) (simp add: operation_def)

text \<open>
  The branch of the sweep that does register: the agent returns checks for the filter,
  none of them under the expected id. Exactly one registration follows, passing with an
  empty reason unless the first Ready condition has status \<open>ConditionFalse\<close>.
\<close>

lemma reconcile_pod_registers:
  assumes "Phase pod = PodRunning"
    and "HFlags t (newAddr t pod) = Inr client"
    and "ChecksWithFilter client (''Name == `'' @ getConsulHealthCheckID pod @ ''`'') = Inr checks"
    and "checks \<noteq> []"
    and "map_of checks (getConsulHealthCheckID pod) = None"
    and "getReadyStatusAndReason pod = Inr (status, reason)"
  shows "filter is_mutation (reconcile_pod t pod) =
     [CheckRegister_call (registration (getConsulHealthCheckID pod) (getConsulServiceID pod)
        (if status = ConditionFalse then healthCheckCritical else healthCheckPassing)
        (if status = ConditionFalse then reason else []))]"
proof -
  obtain polls where "filter is_mutation polls = []"
    and "registerConsulHealthCheck client (getConsulHealthCheckID pod) (getConsulServiceID pod)
        (if status = ConditionFalse then healthCheckCritical else healthCheckPassing)
        (if status = ConditionFalse then reason else []) =
       (CheckRegister client (registration (getConsulHealthCheckID pod) (getConsulServiceID pod)
          (if status = ConditionFalse then healthCheckCritical else healthCheckPassing)
          (if status = ConditionFalse then reason else [])),
        polls @ [CheckRegister_call (registration (getConsulHealthCheckID pod)
          (getConsulServiceID pod)
          (if status = ConditionFalse then healthCheckCritical else healthCheckPassing)
          (if status = ConditionFalse then reason else []))])"
    using registerConsulHealthCheck_always_registers by blast
  then show ?thesis
    using assms by (simp add: reconcile_pod_def updateConsulClient_def Let_def)
qed

text \<open>
  C4. The claim: for a Running, Ready pod whose agent holds no check with the expected
  id, a Reconcile pass registers exactly one check, passing with an empty reason. The
  code does otherwise when the agent holds no check at all for the filter: the pod is
  skipped before its readiness is read, and nothing is registered.
\<close>

theorem Reconcile_skips_pod_without_any_check:
  "Reconcile (handler_on empty_agent [web [Ready ConditionTrue []]]) =
     (None,
      [SetAddress_call ''http://10.0.0.7:8500'',
       ChecksWithFilter_call ''Name == `web-api-kubernetes-health-check-ttl`''])"
  by (simp add: Reconcile_def reconcile_pod_def updateConsulClient_def newAddr_def httpfmt_def
      web_def handler_on_def getConsulHealthCheckID_def getConsulServiceID_def annotation_def
      empty_agent_def PodRunning_def)

text \<open>
  C8, as amended. \<open>Reconcile\<close> returns an error exactly when the listing of the pods
  fails. Inside the sweep every pod is handled by itself: the calls of a sweep over \<open>xs\<close>,
  a pod and \<open>ys\<close> are the calls for \<open>xs\<close>, then those for the pod, then those for \<open>ys\<close>, so
  the pods after a failing one are still handled. A pod for which no client can be bound,
  the query for its checks fails, or the conditions hold none of type Ready is skipped: no
  check is registered, deregistered or set for it.
\<close>

theorem Reconcile_instance_failures_nonfatal:
  "(fst (Reconcile t) \<noteq> None) = isl (Clientset t)
   \<and> snd (Reconcile (t\<lparr>Clientset := Inr (xs @ pod # ys)\<rparr>)) =
       snd (Reconcile (t\<lparr>Clientset := Inr xs\<rparr>)) @ reconcile_pod t pod
         @ snd (Reconcile (t\<lparr>Clientset := Inr ys\<rparr>))
   \<and> (instance_failure t pod \<longrightarrow> filter is_mutation (reconcile_pod t pod) = [])"
proof (intro conjI)
  show "(fst (Reconcile t) \<noteq> None) = isl (Clientset t)"
    by (simp add: Reconcile_def split: sum.splits)
  show "snd (Reconcile (t\<lparr>Clientset := Inr (xs @ pod # ys)\<rparr>)) =
       snd (Reconcile (t\<lparr>Clientset := Inr xs\<rparr>)) @ reconcile_pod t pod
         @ snd (Reconcile (t\<lparr>Clientset := Inr ys\<rparr>))"
    by (simp add: Reconcile_def Reconcile_loop_append Reconcile_loop_Clientset
        reconcile_pod_Clientset)
  show "instance_failure t pod \<longrightarrow> filter is_mutation (reconcile_pod t pod) = []"
    using reconcile_pod_skips_failure by blast
qed

text \<open>
  The three failures, one each: a pod on a host without a reachable agent, a ready pod
  whose agent fails the query, and a pod without a Ready condition whose agent holds its
  check as critical. Each is skipped. In a sweep over the first, the third and a ready pod
  with the critical check, the ready pod is still set to passing.
\<close>

theorem Reconcile_instance_failures_nonfatal_witness:
  "instance_failure (handler_on critical_agent []) (web [] \<lparr>HostIP := ''10.0.0.9''\<rparr>)
   \<and> filter is_mutation
        (reconcile_pod (handler_on critical_agent []) (web [] \<lparr>HostIP := ''10.0.0.9''\<rparr>)) = []
   \<and> instance_failure (handler_on failing_agent []) (web [Ready ConditionTrue []])
   \<and> filter is_mutation
        (reconcile_pod (handler_on failing_agent []) (web [Ready ConditionTrue []])) = []
   \<and> instance_failure (handler_on critical_agent []) (web [])
   \<and> filter is_mutation (reconcile_pod (handler_on critical_agent []) (web [])) = []
   \<and> Reconcile (handler_on critical_agent
        [web [] \<lparr>HostIP := ''10.0.0.9''\<rparr>, web [], web [Ready ConditionTrue []]]) =
      (None,
       [SetAddress_call ''http://10.0.0.9:8500'',
        SetAddress_call ''http://10.0.0.7:8500'',
        ChecksWithFilter_call ''Name == `web-api-kubernetes-health-check-ttl`'',
        SetAddress_call ''http://10.0.0.7:8500'',
        ChecksWithFilter_call ''Name == `web-api-kubernetes-health-check-ttl`'',
        PassTTL_call ''web-api-kubernetes-health-check-ttl'' []])"
proof -
  have unbound:
    "instance_failure (handler_on critical_agent []) (web [] \<lparr>HostIP := ''10.0.0.9''\<rparr>)"
    by (simp add: instance_failure_def handler_on_def newAddr_def httpfmt_def web_def)
  have refused: "instance_failure (handler_on failing_agent []) (web [Ready ConditionTrue []])"
    by (simp add: instance_failure_def handler_on_def newAddr_def httpfmt_def web_def
        failing_agent_def)
  have missing: "instance_failure (handler_on critical_agent []) (web [])"
    by (simp add: instance_failure_def handler_on_def newAddr_def httpfmt_def web_def
        critical_agent_def)
  have first: "reconcile_pod (handler_on critical_agent []) (web [] \<lparr>HostIP := ''10.0.0.9''\<rparr>) =
      [SetAddress_call ''http://10.0.0.9:8500'']"
    by (simp add: reconcile_pod_def updateConsulClient_def handler_on_def newAddr_def
        httpfmt_def web_def)
  have second: "reconcile_pod (handler_on critical_agent []) (web []) =
      [SetAddress_call ''http://10.0.0.7:8500'',
       ChecksWithFilter_call ''Name == `web-api-kubernetes-health-check-ttl`'']"
    by (simp add: reconcile_pod_def updateConsulClient_def newAddr_def httpfmt_def
        web_def handler_on_def getConsulHealthCheckID_def getConsulServiceID_def annotation_def
        critical_agent_def PodRunning_def getReadyStatusAndReason_def)
  have third: "reconcile_pod (handler_on critical_agent []) (web [Ready ConditionTrue []]) =
      [SetAddress_call ''http://10.0.0.7:8500'',
       ChecksWithFilter_call ''Name == `web-api-kubernetes-health-check-ttl`'',
       PassTTL_call ''web-api-kubernetes-health-check-ttl'' []]"
    by (simp add: reconcile_pod_def updateConsulClient_def newAddr_def httpfmt_def
        web_def handler_on_def getConsulHealthCheckID_def getConsulServiceID_def annotation_def
        critical_agent_def PodRunning_def getReadyStatusAndReason_def Ready_def
        ConditionTrue_def ConditionFalse_def healthCheckCritical_def healthCheckPassing_def
        setConsulHealthCheckStatus_def)
  have upd: "handler_on critical_agent [] \<lparr>Clientset := Inr l\<rparr> = handler_on critical_agent l"
    for l by (simp add: handler_on_def)
  have listed: "fst (Reconcile (handler_on critical_agent l)) = None" for l
    by (simp add: Reconcile_def handler_on_def)
  have none: "snd (Reconcile (handler_on critical_agent [])) = []"
    by (simp add: Reconcile_def handler_on_def)
  have one: "snd (Reconcile (handler_on critical_agent [p])) =
      reconcile_pod (handler_on critical_agent []) p" for p
  proof -
    have "Clientset (handler_on critical_agent [p]) = Inr [p]"
      by (simp add: handler_on_def)
    then show ?thesis
      using reconcile_pod_Clientset[where t = "handler_on critical_agent []" and l = "Inr [p]"]
      by (simp add: Reconcile_def upd)
  qed
  have sweep: "snd (Reconcile (handler_on critical_agent
        [web [] \<lparr>HostIP := ''10.0.0.9''\<rparr>, web [], web [Ready ConditionTrue []]])) =
      [SetAddress_call ''http://10.0.0.9:8500'',
       SetAddress_call ''http://10.0.0.7:8500'',
       ChecksWithFilter_call ''Name == `web-api-kubernetes-health-check-ttl`'',
       SetAddress_call ''http://10.0.0.7:8500'',
       ChecksWithFilter_call ''Name == `web-api-kubernetes-health-check-ttl`'',
       PassTTL_call ''web-api-kubernetes-health-check-ttl'' []]"
    using Reconcile_instance_failures_nonfatal
      [of "handler_on critical_agent []" "[web [] \<lparr>HostIP := ''10.0.0.9''\<rparr>]" "web []"
          "[web [Ready ConditionTrue []]]"]
    by (simp add: upd one first second third)
  have "Reconcile (handler_on critical_agent
        [web [] \<lparr>HostIP := ''10.0.0.9''\<rparr>, web [], web [Ready ConditionTrue []]]) =
      (None, snd (Reconcile (handler_on critical_agent
        [web [] \<lparr>HostIP := ''10.0.0.9''\<rparr>, web [], web [Ready ConditionTrue []]])))"
    using listed[of "[web [] \<lparr>HostIP := ''10.0.0.9''\<rparr>, web [], web [Ready ConditionTrue []]]"]
    by (metis prod.collapse)
  then show ?thesis
    using Reconcile_instance_failures_nonfatal
      [of "handler_on critical_agent []" "[]" "web [] \<lparr>HostIP := ''10.0.0.9''\<rparr>" "[]"]
      Reconcile_instance_failures_nonfatal
      [of "handler_on failing_agent []" "[]" "web [Ready ConditionTrue []]" "[]"]
      Reconcile_instance_failures_nonfatal
      [of "handler_on critical_agent []" "[]" "web []" "[]"]
      unbound refused missing sweep
    by simp
qed

text \<open>
  The claim C8 as stated also counts a malformed readiness condition among the failures
  that make the sweep skip a pod. The code has no such check: only the absence of a Ready
  condition is an error. A pod whose Ready condition has a status outside True, False and
  Unknown is handled like a pod that is not failing its probe, and where the agent
  returns checks without the expected id the pod gets a passing check registered.
\<close>

theorem Reconcile_registers_pod_with_malformed_status:
  "''garbage'' \<notin> {ConditionTrue, ConditionFalse, ConditionUnknown}
   \<and> Reconcile (handler_on stray_agent [web [Ready ''garbage'' []]]) =
      (None,
       [SetAddress_call ''http://10.0.0.7:8500'',
        ChecksWithFilter_call ''Name == `web-api-kubernetes-health-check-ttl`'',
        Services_call,
        CheckRegister_call
          (registration ''web-api-kubernetes-health-check-ttl'' ''web-api'' ''passing'' [])])"
proof -
  have "Retry stray_agent ''web-api'' (0, None) = ((Suc 0, None), None, [Services_call])"
    by (rule Retry_found[where svc = "[\<lparr>ID = ''web-api'', Service = ''web-api''\<rparr>]"])
       (simp_all add: stray_agent_def)
  then have "registerConsulHealthCheck stray_agent hc ''web-api'' st reason =
      (None, [Services_call, CheckRegister_call (registration hc ''web-api'' st reason)])"
    for hc st reason
    by (simp add: registerConsulHealthCheck_def stray_agent_def)
  then show ?thesis
    by (simp add: Reconcile_def reconcile_pod_def updateConsulClient_def newAddr_def httpfmt_def
        web_def handler_on_def getConsulHealthCheckID_def getConsulServiceID_def annotation_def
        PodRunning_def getReadyStatusAndReason_def Ready_def healthCheckPassing_def
        ConditionTrue_def ConditionFalse_def ConditionUnknown_def
        stray_agent_def)
qed

section \<open>Properties of the controller\<close>

subsection \<open>The event filter\<close>

text \<open>
  C6. For every pair of pods whose old phase is Pending and whose new phase is Running,
  \<open>UpdateFunc\<close> gives the queue exactly one key, \<open>ADD/\<close> followed by the key of the new
  pod, whatever the conditions of either pod are. (Two such pods differ in their phase,
  so they are never structurally identical.)
\<close>

theorem UpdateFunc_pending_to_running:
  assumes "Phase oldPod = PodPending" and "Phase newPod = PodRunning"
  shows "UpdateFunc oldPod newPod =
     [''ADD/'' @ (if Namespace newPod = [] then Name newPod
                  else Namespace newPod @ ''/'' @ Name newPod)]"
  using assms
  by (auto simp: UpdateFunc_def MetaNamespaceKeyFunc_def PodPending_def PodRunning_def)

theorem UpdateFunc_pending_to_running_witness:
  "Phase (web [] \<lparr>Phase := PodPending\<rparr>) = PodPending
   \<and> Phase (web [Ready ConditionFalse ''starting'']) = PodRunning
   \<and> UpdateFunc (web [] \<lparr>Phase := PodPending\<rparr>) (web [Ready ConditionFalse ''starting'']) =
       [''ADD/default/web'']"
  using UpdateFunc_pending_to_running
    [of "web [] \<lparr>Phase := PodPending\<rparr>" "web [Ready ConditionFalse ''starting'']"]
  by (simp add: web_def)

text \<open>
  The test for structural identity changes nothing in what is queued: identical pods
  have the same phase and the same statuses. So fields of a pod that the record leaves
  out cannot change the keys that \<open>UpdateFunc\<close> queues.
\<close>

lemma UpdateFunc_DeepEqual_redundant:
  "UpdateFunc oldPod newPod =
     (if Phase oldPod = PodPending \<and> Phase newPod = PodRunning
      then (case MetaNamespaceKeyFunc newPod of Inr key \<Rightarrow> [''ADD/'' @ key] | Inl err \<Rightarrow> [])
      else if Phase newPod = PodRunning \<and> podStatus oldPod \<noteq> podStatus newPod
      then (case MetaNamespaceKeyFunc newPod of Inr key \<Rightarrow> [''UPDATE/'' @ key] | Inl err \<Rightarrow> [])
      else [])"
  by (auto simp: UpdateFunc_def PodPending_def PodRunning_def)

lemma podStatus_last_Ready:
  "podStatus pod =
     (case find (\<lambda>y. Type y = ''Ready'') (rev (Conditions pod)) of
        None \<Rightarrow> ConditionTrue
      | Some y \<Rightarrow> Status y)"
proof -
  have "foldl (\<lambda>s y. if Type y = ''Ready'' then Status y else s) s0 ys =
        (case find (\<lambda>y. Type y = ''Ready'') (rev ys) of None \<Rightarrow> s0 | Some y \<Rightarrow> Status y)"
    for s0 ys
    by (induction ys arbitrary: s0 rule: rev_induct) (auto split: option.splits)
  then show ?thesis by (simp add: podStatus_def)
qed

text \<open>
  C7, as amended. For every pair of pods that is not a transition from Pending to
  Running: when the new phase is Running, \<open>UpdateFunc\<close> reads for each pod the status of
  its (last) Ready condition, \<open>ConditionTrue\<close> when it has none, and gives the queue the
  key \<open>UPDATE/\<close> followed by the key of the new pod exactly when the two status values
  differ, and nothing when they are equal; when the new phase is not Running it gives the
  queue nothing.
\<close>

theorem UpdateFunc_status_change:
  assumes "\<not> (Phase oldPod = PodPending \<and> Phase newPod = PodRunning)"
  shows "UpdateFunc oldPod newPod =
     (if Phase newPod = PodRunning \<and> podStatus oldPod \<noteq> podStatus newPod
      then [''UPDATE/'' @ (if Namespace newPod = [] then Name newPod
                           else Namespace newPod @ ''/'' @ Name newPod)]
      else [])
   \<and> podStatus newPod =
     (case find (\<lambda>y. Type y = ''Ready'') (rev (Conditions newPod)) of
        None \<Rightarrow> ConditionTrue
      | Some y \<Rightarrow> Status y)"
  using assms podStatus_last_Ready[of newPod]
  by (auto simp: UpdateFunc_def MetaNamespaceKeyFunc_def)

theorem UpdateFunc_status_change_witness:
  "\<not> (Phase (web []) = PodPending \<and> Phase (web [Ready ConditionFalse ''probe failed'']) = PodRunning)
   \<and> UpdateFunc (web []) (web [Ready ConditionFalse ''probe failed'']) = [''UPDATE/default/web'']
   \<and> podStatus (web [Ready ConditionFalse ''probe failed'']) = ConditionFalse
   \<and> podStatus (web []) = ConditionTrue"
  using UpdateFunc_status_change [of "web []" "web [Ready ConditionFalse ''probe failed'']"]
  by (simp add: web_def Ready_def podStatus_def PodPending_def PodRunning_def
      ConditionTrue_def ConditionFalse_def)

text \<open>
  The claim C7 as stated speaks of two readiness booleans. The statuses compared are the
  three values True, False and Unknown of the Kubernetes API: a running pod whose Ready
  condition goes from False to Unknown is not ready before and not ready after, and an
  Update is queued all the same. Each two of the three statuses give an Update, so no
  reading of them as booleans makes "Update exactly when the booleans differ" true.
\<close>

theorem UpdateFunc_compares_statuses_not_booleans:
  "Phase (web [Ready ConditionUnknown []]) = PodRunning
   \<and> readiness_boolean (web [Ready ConditionFalse []]) =
     readiness_boolean (web [Ready ConditionUnknown []])
   \<and> UpdateFunc (web [Ready ConditionFalse []]) (web [Ready ConditionUnknown []]) =
       [''UPDATE/default/web'']
   \<and> UpdateFunc (web [Ready ConditionTrue []]) (web [Ready ConditionUnknown []]) =
       [''UPDATE/default/web'']
   \<and> UpdateFunc (web [Ready ConditionTrue []]) (web [Ready ConditionFalse []]) =
       [''UPDATE/default/web'']"
  by (simp add: UpdateFunc_def MetaNamespaceKeyFunc_def web_def Ready_def podStatus_def
      readiness_boolean_def PodPending_def PodRunning_def
      ConditionTrue_def ConditionFalse_def ConditionUnknown_def)

subsection \<open>The worker loop\<close>

lemma Split_nonempty: "Split s \<noteq> []"
  by (induction s) (auto split: list.splits)

lemma processNextItem_no_panic: "processNextItem c q (key, quit) \<noteq> Panic"
  using Split_nonempty[of key]
  by (auto simp: processNextItem_def Let_def split: list.splits prod.splits option.splits)

text \<open>
  C10. For every key whose first segment is not \<open>ADD\<close>, whatever its other segments
  are, \<open>processNextItem\<close> returns true, calls \<open>ObjectUpdated\<close> and nothing else on the handler
  when the indexer has an item under the rest of the key, calls nothing on the handler
  when it has none, and reports an error only for an error of the lookup itself.
  (Every key splits into a first segment and a rest: \<open>Split_nonempty\<close>.)
\<close>

theorem processNextItem_key_without_ADD:
  assumes "Split key = action # rest" and "action \<noteq> ''ADD''"
    and "GetByKey c (Join rest) = (item, err)"
  shows "\<exists>q'. processNextItem c \<lparr>NumRequeues = n, events = []\<rparr> (key, False) = Return (True, q')
     \<and> filter is_Handle (events q') =
         (case item of Some pod \<Rightarrow> [Handle_ObjectUpdated pod] | None \<Rightarrow> [])
     \<and> filter is_HandleError (events q') =
         (case err of
            Some e \<Rightarrow> if int (n key) < MaxRetries c then [] else [HandleError e]
          | None \<Rightarrow> [])"
  using assms
  by (auto simp: processNextItem_def Let_def dispatch_def lookup_failed_def emit_def
      AddRateLimited_def Forget_def Done_def split: option.splits)

theorem processNextItem_key_without_ADD_witness:
  "Split ''DELETE/default/web'' = ''DELETE'' # [''default'', ''web'']
   \<and> ''DELETE'' \<noteq> ''ADD''
   \<and> (\<exists>q'. processNextItem (controller_on 5 None (Some (web []), None)) fresh_queue
              (''DELETE/default/web'', False) = Return (True, q')
         \<and> filter is_Handle (events q') = [Handle_ObjectUpdated (web [])]
         \<and> filter is_HandleError (events q') = [])"
  using processNextItem_key_without_ADD
    [of "''DELETE/default/web''" "''DELETE''" "[''default'', ''web'']"
        "controller_on 5 None (Some (web []), None)" "Some (web [])" None "\<lambda>k. 0"]
  by (simp add: controller_on_def fresh_queue_def)

text \<open>
  C3, as amended. For every key that \<open>processNextItem\<close> takes from the queue, \<open>Done(key)\<close> is
  called exactly once when the pass ends without an error (the lookup did not fail and
  the item is absent, or the item exists and the calls on the handler succeeded) and is
  not called at all when it ends with one (the lookup failed for an absent item, or a
  call on the handler failed).
\<close>

theorem processNextItem_Done_count:
  assumes "Split key = action # rest" and "GetByKey c (Join rest) = (item, err)"
  shows "\<exists>q'. processNextItem c \<lparr>NumRequeues = n, events = []\<rparr> (key, False) = Return (True, q')
     \<and> length (filter (\<lambda>e. e = Queue_Done key) (events q')) =
         (if (case item of
                None \<Rightarrow> err
              | Some pod \<Rightarrow> handler_err c (action = ''ADD'') pod) = None
          then 1 else 0)"
  using assms
  by (auto simp: processNextItem_def Let_def dispatch_def lookup_failed_def emit_def
      handler_err_def AddRateLimited_def Forget_def Done_def split: option.splits)

theorem processNextItem_Done_count_witness:
  "Split ''ADD/default/web'' = ''ADD'' # [''default'', ''web'']
   \<and> (\<exists>q'. processNextItem (controller_on 5 None (Some (web []), None)) fresh_queue
              (''ADD/default/web'', False) = Return (True, q')
         \<and> length (filter (\<lambda>e. e = Queue_Done ''ADD/default/web'') (events q')) = 1)"
  using processNextItem_Done_count
    [of "''ADD/default/web''" "''ADD''" "[''default'', ''web'']"
        "controller_on 5 None (Some (web []), None)" "Some (web [])" None "\<lambda>k. 0"]
  by (simp add: controller_on_def fresh_queue_def handler_err_def)

text \<open>
  The claim C3 as stated fails whenever the pass ends with an error: after a failed
  lookup the key is given back to the rate limiter and \<open>Done\<close> is not called, and after a
  failed call on the handler likewise.
\<close>

theorem processNextItem_Done_not_called_on_error:
  "processNextItem (controller_on 5 None (None, Some ''index unavailable'')) fresh_queue
     (''UPDATE/default/web'', False) =
     Return (True, \<lparr>NumRequeues = (\<lambda>k. 0)(''UPDATE/default/web'' := Suc 0),
                    events = [Queue_AddRateLimited ''UPDATE/default/web'']\<rparr>)
   \<and> processNextItem (controller_on 5 (Some ''agent unreachable'') (Some (web []), None))
       fresh_queue (''UPDATE/default/web'', False) =
     Return (True, \<lparr>NumRequeues = (\<lambda>k. 0)(''UPDATE/default/web'' := Suc 0),
                    events = [Handle_ObjectUpdated (web []),
                              Queue_AddRateLimited ''UPDATE/default/web'']\<rparr>)"
  by (simp add: processNextItem_def controller_on_def fresh_queue_def dispatch_def
      lookup_failed_def emit_def AddRateLimited_def Forget_def Done_def)

text \<open>What the lookup branch does once the retries are used up: forget and report.\<close>

lemma processNextItem_lookup_exhausted:
  assumes "Split key = action # rest" and "GetByKey c (Join rest) = (None, Some e)"
    and "\<not> int (n key) < MaxRetries c"
  shows "\<exists>q'. processNextItem c \<lparr>NumRequeues = n, events = []\<rparr> (key, False) = Return (True, q')
     \<and> events q' = [Queue_Forget key, HandleError e]"
  using assms
  by (auto simp: processNextItem_def Let_def lookup_failed_def emit_def Forget_def)

text \<open>What the handler branch does once the retries are used up: nothing.\<close>

lemma processNextItem_handler_exhausted:
  assumes "Split key = action # rest" and "GetByKey c (Join rest) = (Some pod, None)"
    and "handler_err c (action = ''ADD'') pod = Some e"
    and "\<not> int (n key) < MaxRetries c"
  shows "\<exists>q'. processNextItem c \<lparr>NumRequeues = n, events = []\<rparr> (key, False) = Return (True, q')
     \<and> filter (\<lambda>e. \<not> is_Handle e) (events q') = []"
  using assms
  by (auto simp: processNextItem_def Let_def dispatch_def emit_def handler_err_def
      split: option.splits if_splits)

text \<open>
  C2. The claim: a key whose processing fails \<open>MaxRetries + 1\<close> times, in the lookup or in
  the handler, is forgotten and exactly one error report is emitted. The code does so
  for a failing lookup only. When the handler fails and the retries are used up, as
  here on the third failure with \<open>MaxRetries = 2\<close> and on the first with \<open>MaxRetries = 0\<close>,
  it calls the handler and nothing else: no \<open>Forget\<close>, no error report.
\<close>

theorem processNextItem_handler_failure_dropped_silently:
  "processNextItem (controller_on 2 (Some ''agent unreachable'') (Some (web []), None))
     \<lparr>NumRequeues = (\<lambda>k. 2), events = []\<rparr> (''UPDATE/default/web'', False) =
     Return (True, \<lparr>NumRequeues = (\<lambda>k. 2), events = [Handle_ObjectUpdated (web [])]\<rparr>)
   \<and> processNextItem (controller_on 0 (Some ''agent unreachable'') (Some (web []), None))
       fresh_queue (''ADD/default/web'', False) =
     Return (True, \<lparr>NumRequeues = (\<lambda>k. 0), events = [Handle_ObjectCreated (web [])]\<rparr>)"
  by (simp add: processNextItem_def controller_on_def fresh_queue_def dispatch_def
      lookup_failed_def emit_def AddRateLimited_def Forget_def Done_def)

end
